theory Spec2Isabelle
  imports Main
begin

section \<open>Python values and built-ins used by the tracker\<close>

text \<open>
  The tracker (\<^verbatim>\<open>bybit_options_optimized.py\<close>) receives JSON-decoded messages and the
  reader (\<^verbatim>\<open>data_reader.py\<close>) receives string maps from the store.  A JSON-decoded
  Python value is one of the constructors below; a dict is an association list with
  distinct keys, looked up with \<open>map_of\<close>.  The type \<open>'f\<close> stands for Python's
  \<^verbatim>\<open>float\<close>: the code never computes with the quote values, it only converts them
  with \<^verbatim>\<open>float(...)\<close> and \<^verbatim>\<open>str(...)\<close>.
\<close>

datatype py_exn =
  ValueError | TypeError | OverflowError | AttributeError | KeyError | IndexError
  | DataError | ConnectionError | OSError

datatype 'f pyval =
  PNone
  | PBool bool
  | PInt int
  | PFloat 'f
  | PStr string
  | PList "'f pyval list"
  | PDict "(string \<times> 'f pyval) list"

text \<open>
  The built-ins whose result depends on the floating-point format or on Python's
  number grammar are parameters of the model:
  \<^item> \<open>float_of_int\<close>: \<^verbatim>\<open>float(i)\<close> for an integer inside the range of a double;
  \<^item> \<open>float_of_str\<close>: \<^verbatim>\<open>float(s)\<close>, \<open>None\<close> where Python raises \<^verbatim>\<open>ValueError\<close>;
  \<^item> \<open>int_of_str\<close>: \<^verbatim>\<open>int(s)\<close>, \<open>None\<close> where Python raises \<^verbatim>\<open>ValueError\<close>;
  \<^item> \<open>str_of_float\<close>: \<^verbatim>\<open>str(x)\<close> of a float;
  \<^item> \<open>float_nonzero\<close>: the truth value of a float;
  \<^item> \<open>str_of_container\<close>: \<^verbatim>\<open>str(v)\<close> of a list or dict.
\<close>

record 'f pyops =
  float_of_int :: "int \<Rightarrow> 'f"
  float_of_str :: "string \<Rightarrow> 'f option"
  int_of_str :: "string \<Rightarrow> int option"
  str_of_float :: "'f \<Rightarrow> string"
  float_nonzero :: "'f \<Rightarrow> bool"
  str_of_container :: "'f pyval \<Rightarrow> string"

definition digit_char :: "nat \<Rightarrow> char" where
  "digit_char n = ''0123456789'' ! n"

fun str_of_nat :: "nat \<Rightarrow> string" where
  "str_of_nat n =
     (if n < 10 then [digit_char n] else str_of_nat (n div 10) @ [digit_char (n mod 10)])"

declare str_of_nat.simps [simp del]

definition str_of_int :: "int \<Rightarrow> string" where
  "str_of_int i = (if i < 0 then CHR ''-'' # str_of_nat (nat (- i)) else str_of_nat (nat i))"

text \<open>\<^verbatim>\<open>str(v)\<close>, also what an f-string \<^verbatim>\<open>f"{v}"\<close> inserts.\<close>

definition py_str :: "'f pyops \<Rightarrow> 'f pyval \<Rightarrow> string" where
  "py_str py v =
     (case v of
        PNone \<Rightarrow> ''None''
      | PBool b \<Rightarrow> (if b then ''True'' else ''False'')
      | PInt i \<Rightarrow> str_of_int i
      | PFloat x \<Rightarrow> str_of_float py x
      | PStr s \<Rightarrow> s
      | PList l \<Rightarrow> str_of_container py v
      | PDict d \<Rightarrow> str_of_container py v)"

text \<open>The truth value of \<^verbatim>\<open>if not v\<close>.\<close>

definition truthy :: "'f pyops \<Rightarrow> 'f pyval \<Rightarrow> bool" where
  "truthy py v =
     (case v of
        PNone \<Rightarrow> False
      | PBool b \<Rightarrow> b
      | PInt i \<Rightarrow> i \<noteq> 0
      | PFloat x \<Rightarrow> float_nonzero py x
      | PStr s \<Rightarrow> s \<noteq> []
      | PList l \<Rightarrow> l \<noteq> []
      | PDict d \<Rightarrow> d \<noteq> [])"

text \<open>\<^verbatim>\<open>v.get(k)\<close>: only a dict has the method; a missing key gives \<^verbatim>\<open>None\<close>.\<close>

definition py_get :: "'f pyval \<Rightarrow> string \<Rightarrow> py_exn + 'f pyval" where
  "py_get v k =
     (case v of
        PDict d \<Rightarrow> Inr (case map_of d k of None \<Rightarrow> PNone | Some x \<Rightarrow> x)
      | _ \<Rightarrow> Inl AttributeError)"

text \<open>
  \<^verbatim>\<open>float(v)\<close>.  An integer converts when it rounds to a finite double, that is when
  its magnitude is below \<open>2^1024 - 2^970\<close> (half-way between the largest double and
  \<open>2^1024\<close>, which rounds up); beyond, Python raises \<^verbatim>\<open>OverflowError\<close>.
\<close>

definition double_limit :: int where
  "double_limit = 2 ^ 1024 - 2 ^ 970"

definition py_float :: "'f pyops \<Rightarrow> 'f pyval \<Rightarrow> py_exn + 'f" where
  "py_float py v =
     (case v of
        PNone \<Rightarrow> Inl TypeError
      | PBool b \<Rightarrow> Inr (float_of_int py (if b then 1 else 0))
      | PInt i \<Rightarrow> (if \<bar>i\<bar> < double_limit then Inr (float_of_int py i) else Inl OverflowError)
      | PFloat x \<Rightarrow> Inr x
      | PStr s \<Rightarrow> (case float_of_str py s of None \<Rightarrow> Inl ValueError | Some x \<Rightarrow> Inr x)
      | PList l \<Rightarrow> Inl TypeError
      | PDict d \<Rightarrow> Inl TypeError)"

text \<open>\<^verbatim>\<open>int(v)\<close> for the two kinds of argument the reader passes: a string or an int.\<close>

definition py_int :: "'f pyops \<Rightarrow> 'f pyval \<Rightarrow> py_exn + int" where
  "py_int py v =
     (case v of
        PInt i \<Rightarrow> Inr i
      | PBool b \<Rightarrow> Inr (if b then 1 else 0)
      | PStr s \<Rightarrow> (case int_of_str py s of None \<Rightarrow> Inl ValueError | Some i \<Rightarrow> Inr i)
      | _ \<Rightarrow> Inl TypeError)"

section \<open>The conversion helper\<close>

text \<open>
  \<^verbatim>\<open>
  def _to_float(self, value):
      if value is None or value == '':
          return None
      try:
          return float(value)
      except (ValueError, TypeError):
          return None
  \<close>
  The result is \<open>Inr PNone\<close> or \<open>Inr (PFloat x)\<close>; \<open>Inl e\<close> is an exception that
  leaves the function.
\<close>

definition to_float :: "'f pyops \<Rightarrow> 'f pyval \<Rightarrow> py_exn + 'f pyval" where
  "to_float py v =
     (if v = PNone \<or> v = PStr [] then Inr PNone
      else case py_float py v of
             Inr x \<Rightarrow> Inr (PFloat x)
           | Inl ValueError \<Rightarrow> Inr PNone
           | Inl TypeError \<Rightarrow> Inr PNone
           | Inl e \<Rightarrow> Inl e)"

section \<open>The quote record and its stored form\<close>

text \<open>
  The record literal of \<open>handle_message\<close>: the short key and the key of the inbound
  message it is read from, in the order of the literal.
\<close>

definition wire_fields :: "(string \<times> string) list" where
  "wire_fields =
     [(''biv'', ''bidIv''), (''aiv'', ''askIv''), (''lp'', ''lastPrice''),
      (''mp'', ''markPrice''), (''ip'', ''indexPrice''), (''miv'', ''markPriceIv''),
      (''up'', ''underlyingPrice''), (''oi'', ''openInterest''), (''d'', ''delta''),
      (''g'', ''gamma''), (''v'', ''vega''), (''t'', ''theta''),
      (''v24'', ''volume24h''), (''t24'', ''turnover24h'')]"

fun to_float_fields ::
  "'f pyops \<Rightarrow> 'f pyval \<Rightarrow> (string \<times> string) list \<Rightarrow> py_exn + (string \<times> 'f pyval) list" where
  "to_float_fields py d [] = Inr []"
| "to_float_fields py d ((k, w) # rest) =
     (case py_get d w of
        Inl e \<Rightarrow> Inl e
      | Inr x \<Rightarrow>
          (case to_float py x of
             Inl e \<Rightarrow> Inl e
           | Inr v \<Rightarrow>
               (case to_float_fields py d rest of
                  Inl e \<Rightarrow> Inl e
                | Inr r \<Rightarrow> Inr ((k, v) # r))))"

text \<open>The record dict before the \<^verbatim>\<open>None\<close> values are removed; \<open>now\<close> is \<^verbatim>\<open>int(time.time())\<close>.\<close>

definition quote_record ::
  "'f pyops \<Rightarrow> int \<Rightarrow> 'f pyval \<Rightarrow> py_exn + (string \<times> 'f pyval) list" where
  "quote_record py now d =
     (case to_float_fields py d wire_fields of
        Inl e \<Rightarrow> Inl e
      | Inr r \<Rightarrow> Inr ((''ts'', PInt now) # r))"

text \<open>\<^verbatim>\<open>{k: str(v) for k, v in record.items() if v is not None}\<close>\<close>

definition encode :: "'f pyops \<Rightarrow> (string \<times> 'f pyval) list \<Rightarrow> (string \<times> string) list" where
  "encode py r = map (\<lambda>(k, v). (k, py_str py v)) (filter (\<lambda>(k, v). v \<noteq> PNone) r)"

section \<open>The tracker object\<close>

record 'f batch_item =
  symbol :: "'f pyval"
  data :: "(string \<times> string) list"

datatype ws_event =
  WsConnect bool
  | WsSubscribe "string list" bool
  | WsExit bool
  | Sleep nat

text \<open>
  The fields of \<^verbatim>\<open>OptimizedOptionsTracker\<close> that the modelled methods read or write.
  \<open>redis_client\<close> and \<open>ws\<close> say whether the attribute is set (not \<^verbatim>\<open>None\<close>);
  \<open>start_time\<close> is \<open>None\<close> until \<^verbatim>\<open>track\<close> assigns it.  \<open>ws_log\<close> and \<open>ws_calls\<close>
  are not attributes: they record the calls made on the stream client and \<^verbatim>\<open>time.sleep\<close>
  (in milliseconds), and count the calls so far.  The rate bookkeeping of the in-process
  stats (\<^verbatim>\<open>msg_per_sec\<close>, \<^verbatim>\<open>last_msg_count\<close>, \<^verbatim>\<open>last_msg_time\<close>, \<^verbatim>\<open>last_update\<close>) only
  feeds log lines and is left out.
\<close>

record 'f tracker =
  batch_queue :: "'f batch_item list"
  stats_messages :: nat
  stats_errors :: nat
  stats_batches :: nat
  redis_client :: bool
  start_time :: "int option"
  ws :: bool
  active_symbols :: "string list"
  symbol_chunks :: "string list list"
  ws_reconnect_count :: nat
  ws_log :: "ws_event list"
  ws_calls :: nat

definition batch_size :: nat where
  "batch_size = 200"

definition maxlen :: nat where
  "maxlen = 10000"

definition ws_reconnect_delay :: nat where
  "ws_reconnect_delay = 10"

definition ws_max_reconnect_attempts :: nat where
  "ws_max_reconnect_attempts = 10"

text \<open>The state after \<^verbatim>\<open>__init__\<close>.\<close>

definition init_tracker :: "'f tracker" where
  "init_tracker =
     \<lparr>batch_queue = [], stats_messages = 0, stats_errors = 0, stats_batches = 0,
      redis_client = False, start_time = None, ws = False, active_symbols = [],
      symbol_chunks = [], ws_reconnect_count = 0, ws_log = [], ws_calls = 0\<rparr>"

section \<open>The ingestion buffer\<close>

text \<open>
  \<^verbatim>\<open>deque(maxlen=m).append(x)\<close>: a full deque drops its leftmost element first.
  A deque never holds more than \<open>m\<close> elements.
\<close>

definition deque_append :: "nat \<Rightarrow> 'a list \<Rightarrow> 'a \<Rightarrow> 'a list" where
  "deque_append m q x =
     (if m = 0 then q else if length q = m then tl q @ [x] else q @ [x])"

text \<open>
  The part of \<open>handle_message\<close> between the message counter and the append: it raises,
  returns early (\<open>Inr None\<close>), or builds the item to enqueue.
\<close>

definition batch_item_of ::
  "'f pyops \<Rightarrow> int \<Rightarrow> 'f pyval \<Rightarrow> py_exn + 'f batch_item option" where
  "batch_item_of py now message =
     (case py_get message ''data'' of
        Inl e \<Rightarrow> Inl e
      | Inr d \<Rightarrow>
          if \<not> truthy py d then Inr None
          else (case py_get d ''symbol'' of
                  Inl e \<Rightarrow> Inl e
                | Inr s \<Rightarrow>
                    if \<not> truthy py s then Inr None
                    else (case quote_record py now d of
                            Inl e \<Rightarrow> Inl e
                          | Inr r \<Rightarrow> Inr (Some \<lparr>symbol = s, data = encode py r\<rparr>))))"

text \<open>
  \<open>handle_message\<close>: the counter is incremented first; any exception of the body is
  caught and counted, and the method returns normally.
\<close>

definition handle_message :: "'f pyops \<Rightarrow> int \<Rightarrow> 'f tracker \<Rightarrow> 'f pyval \<Rightarrow> 'f tracker" where
  "handle_message py now st message =
     (let st1 = st\<lparr>stats_messages := stats_messages st + 1\<rparr>
      in case batch_item_of py now message of
           Inl e \<Rightarrow> st1\<lparr>stats_errors := stats_errors st1 + 1\<rparr>
         | Inr None \<Rightarrow> st1
         | Inr (Some it) \<Rightarrow> st1\<lparr>batch_queue := deque_append maxlen (batch_queue st1) it\<rparr>)"

text \<open>A run of the callback over the inbound messages, each with its arrival time.\<close>

definition handle_messages ::
  "'f pyops \<Rightarrow> 'f tracker \<Rightarrow> (int \<times> 'f pyval) list \<Rightarrow> 'f tracker" where
  "handle_messages py st ms = foldl (\<lambda>s (now, m). handle_message py now s m) st ms"

section \<open>The symbol cache\<close>

text \<open>
  A timestamp field of the cache document: the key is missing (\<^verbatim>\<open>KeyError\<close>), the value
  is not a naive ISO timestamp that \<^verbatim>\<open>datetime.fromisoformat\<close> and the comparison with
  \<^verbatim>\<open>datetime.now()\<close> accept (\<^verbatim>\<open>ValueError\<close> or \<^verbatim>\<open>TypeError\<close>), or it is a timestamp,
  counted in microseconds.
\<close>

datatype stamp = NoKey | BadStamp | Stamp int

record 'a cache_data =
  cd_symbols :: "'a option"
  cd_count :: "nat option"
  cd_updated_at :: stamp
  cd_expires_at :: stamp

text \<open>
  What \<open>load_cache\<close> finds at the cache path:
  \<^item> \<open>StatFails\<close>: the path cannot be examined (permission denied on a directory of the
    path, a name that is too long); \<^verbatim>\<open>cache_path.exists()\<close> raises the \<^verbatim>\<open>OSError\<close>;
  \<^item> \<open>NoFile\<close>: \<^verbatim>\<open>cache_path.exists()\<close> is false;
  \<^item> \<open>Unreadable\<close>: the file exists and \<^verbatim>\<open>open\<close> or \<^verbatim>\<open>json.load\<close> raises, or the
    parsed value is not a dict;
  \<^item> \<open>Document d\<close>: the file parses to the dict \<open>d\<close>.
\<close>

datatype 'a cache_file = StatFails | NoFile | Unreadable | Document "'a cache_data"

definition read_stamp :: "stamp \<Rightarrow> py_exn + int" where
  "read_stamp s = (case s of NoKey \<Rightarrow> Inl KeyError | BadStamp \<Rightarrow> Inl ValueError | Stamp t \<Rightarrow> Inr t)"

text \<open>The body of the \<^verbatim>\<open>try\<close> of \<open>load_cache\<close>, after the file was parsed.\<close>

definition load_cache_try :: "int \<Rightarrow> 'a cache_data \<Rightarrow> py_exn + 'a option" where
  "load_cache_try now d =
     (case read_stamp (cd_updated_at d) of
        Inl e \<Rightarrow> Inl e
      | Inr cached_time \<Rightarrow>
          (case read_stamp (cd_expires_at d) of
             Inl e \<Rightarrow> Inl e
           | Inr expires_at \<Rightarrow>
               if now > expires_at then Inr None
               else (case cd_count d of
                       None \<Rightarrow> Inl KeyError
                     | Some c \<Rightarrow>
                         (case cd_symbols d of
                            None \<Rightarrow> Inl KeyError
                          | Some s \<Rightarrow> Inr (Some s)))))"

text \<open>
  \<open>load_cache\<close>.  The existence check comes before the \<^verbatim>\<open>try\<close>: an exception of
  \<^verbatim>\<open>cache_path.exists()\<close> leaves the method (\<open>Inl\<close>); every exception after it is
  caught and gives \<^verbatim>\<open>None\<close>.
\<close>

definition load_cache :: "int \<Rightarrow> 'a cache_file \<Rightarrow> py_exn + 'a option" where
  "load_cache now f =
     (case f of
        StatFails \<Rightarrow> Inl OSError
      | NoFile \<Rightarrow> Inr None
      | Unreadable \<Rightarrow> Inr None
      | Document d \<Rightarrow> (case load_cache_try now d of Inl e \<Rightarrow> Inr None | Inr r \<Rightarrow> Inr r))"

section \<open>The flush task\<close>

datatype redis_cmd =
  HSET string "(string \<times> string) list"
  | EXPIRE string nat
  | HINCRBY string string int
  | KEYS string
  | HGETALL string
  | DBSIZE
  | INFO string

definition popleft :: "'a list \<Rightarrow> py_exn + ('a \<times> 'a list)" where
  "popleft q = (case q of [] \<Rightarrow> Inl IndexError | x # xs \<Rightarrow> Inr (x, xs))"

text \<open>\<^verbatim>\<open>[self.batch_queue.popleft() for _ in range(n)]\<close>: the batch and the queue left.\<close>

fun popleft_n :: "nat \<Rightarrow> 'a list \<Rightarrow> py_exn + ('a list \<times> 'a list)" where
  "popleft_n 0 q = Inr ([], q)"
| "popleft_n (Suc n) q =
     (case popleft q of
        Inl e \<Rightarrow> Inl e
      | Inr (x, q1) \<Rightarrow>
          (case popleft_n n q1 of
             Inl e \<Rightarrow> Inl e
           | Inr (b, q2) \<Rightarrow> Inr (x # b, q2)))"

text \<open>
  The loop that fills the pipeline.  The client library refuses a hash-set with an empty
  mapping (\<^verbatim>\<open>DataError\<close>) when \<^verbatim>\<open>pipe.hset\<close> is called, before anything is sent.
\<close>

fun pipe_items :: "'f pyops \<Rightarrow> 'f batch_item list \<Rightarrow> py_exn + redis_cmd list" where
  "pipe_items py [] = Inr []"
| "pipe_items py (it # its) =
     (if data it = [] then Inl DataError
      else (case pipe_items py its of
              Inl e \<Rightarrow> Inl e
            | Inr cs \<Rightarrow>
                Inr (HSET (''option:'' @ py_str py (symbol it)) (data it)
                     # EXPIRE (''option:'' @ py_str py (symbol it)) 86400 # cs)))"

text \<open>
  One iteration of the loop of \<open>batch_processor\<close>, after its sleep.  \<open>now_s\<close> is
  \<^verbatim>\<open>str(time.time())\<close>; \<open>exec_ok\<close> says whether \<^verbatim>\<open>pipe.execute()\<close> returns.  The first
  component is the pipeline handed to \<^verbatim>\<open>execute\<close>, \<open>None\<close> when \<^verbatim>\<open>execute\<close> is not
  reached.  An exception is caught by the loop, which logs it and goes on.
\<close>

definition batch_processor_tick ::
  "'f pyops \<Rightarrow> string \<Rightarrow> bool \<Rightarrow> 'f tracker \<Rightarrow> redis_cmd list option \<times> 'f tracker" where
  "batch_processor_tick py now_s exec_ok st =
     (if batch_queue st = [] then (None, st)
      else (case popleft_n (min (length (batch_queue st)) batch_size) (batch_queue st) of
              Inl e \<Rightarrow> (None, st\<lparr>batch_queue := []\<rparr>)
            | Inr (batch, rest) \<Rightarrow>
                (let st1 = st\<lparr>batch_queue := rest\<rparr>
                 in if batch = [] then (None, st1)
                    else (case pipe_items py batch of
                            Inl e \<Rightarrow> (None, st1)
                          | Inr cs \<Rightarrow>
                              (let pipe = cs @ [HINCRBY ''stats'' ''messages'' (int (length batch)),
                                               HSET ''stats'' [(''last_update'', now_s)],
                                               HINCRBY ''stats'' ''batches'' 1]
                               in if exec_ok
                                  then (Some pipe, st1\<lparr>stats_batches := stats_batches st1 + 1\<rparr>)
                                  else (Some pipe, st1))))))"

section \<open>Shutdown\<close>

text \<open>Commands sent one by one inside a \<^verbatim>\<open>try\<close>: the first that fails ends the block.\<close>

fun issue :: "(nat \<Rightarrow> bool) \<Rightarrow> nat \<Rightarrow> 'c list \<Rightarrow> 'c list" where
  "issue ok i [] = []"
| "issue ok i (c # cs) = c # (if ok i then issue ok (Suc i) cs else [])"

text \<open>
  \<open>cleanup\<close>.  \<open>now_s\<close> is \<^verbatim>\<open>str(time.time())\<close> and \<open>rate_s\<close> is \<^verbatim>\<open>str(avg_rate)\<close>;
  \<open>store_ok i\<close> says whether the \<open>i\<close>-th store call returns and \<open>exit_ok\<close> whether
  \<^verbatim>\<open>ws.exit()\<close> does.  The method changes no attribute: the result is the store commands
  sent, the stream calls made, and the exception that leaves the method, if any.  An
  unset \<^verbatim>\<open>start_time\<close> raises inside the \<^verbatim>\<open>try\<close>, whose handler passes.
\<close>

definition cleanup ::
  "string \<Rightarrow> string \<Rightarrow> (nat \<Rightarrow> bool) \<Rightarrow> bool \<Rightarrow> 'f tracker
     \<Rightarrow> redis_cmd list \<times> ws_event list \<times> py_exn option" where
  "cleanup now_s rate_s store_ok exit_ok st =
     (let remaining = length (batch_queue st);
          cmds = (if redis_client st
                  then (case start_time st of
                          None \<Rightarrow> []
                        | Some t0 \<Rightarrow>
                            issue store_ok 0
                              [HSET ''stats'' [(''shutdown_time'', now_s)],
                               HSET ''stats'' [(''total_messages'', str_of_nat (stats_messages st))],
                               HSET ''stats'' [(''avg_msg_rate'', rate_s)]])
                  else [])
      in if ws st
         then (cmds, [WsExit exit_ok], if exit_ok then None else Some ConnectionError)
         else (cmds, [], None))"

section \<open>The subscription manager\<close>

text \<open>
  The stream client is outside the program: \<open>connect_ok n\<close>, \<open>subscribe_ok n\<close> and
  \<open>exit_ok n\<close> say whether the call numbered \<open>n\<close> (counting every call on the client)
  returns, when it is a \<^verbatim>\<open>WebSocket(...)\<close>, a \<^verbatim>\<open>ticker_stream\<close> or an \<^verbatim>\<open>exit\<close>.
\<close>

record ws_env =
  connect_ok :: "nat \<Rightarrow> bool"
  subscribe_ok :: "nat \<Rightarrow> bool"
  exit_ok :: "nat \<Rightarrow> bool"

definition ws_call :: "ws_event \<Rightarrow> 'f tracker \<Rightarrow> 'f tracker" where
  "ws_call ev st = st\<lparr>ws_log := ws_log st @ [ev], ws_calls := ws_calls st + 1\<rparr>"

definition sleep_ms :: "nat \<Rightarrow> 'f tracker \<Rightarrow> 'f tracker" where
  "sleep_ms ms st = st\<lparr>ws_log := ws_log st @ [Sleep ms]\<rparr>"

text \<open>\<^verbatim>\<open>[xs[i:i + n] for i in range(0, len(xs), n)]\<close>\<close>

function chunks :: "nat \<Rightarrow> 'a list \<Rightarrow> 'a list list" where
  "chunks n xs = (if n = 0 \<or> xs = [] then [] else take n xs # chunks n (drop n xs))"
  by pat_completeness auto
termination
  by (relation "measure (\<lambda>(n, xs). length xs)") auto

declare chunks.simps [simp del]

definition chunk_size :: nat where
  "chunk_size = 100"

text \<open>
  \<open>subscribe_symbols\<close>, its loop over the chunks, and \<open>reconnect_websocket\<close>, which call
  each other.  \<open>subscribe_symbols\<close> gives \<open>Inl\<close> when the constructor of the client
  raises (nothing was assigned yet) and \<open>Inr\<close> when it returns.  The order in which
  Python lists a set is not specified: \<^verbatim>\<open>set(symbols)\<close> is kept as the list without
  duplicates, and the theorems below speak of its elements only.
\<close>

function
  subscribe_symbols :: "ws_env \<Rightarrow> 'f tracker \<Rightarrow> string list \<Rightarrow> 'f tracker + 'f tracker" and
  subscribe_chunks :: "ws_env \<Rightarrow> 'f tracker \<Rightarrow> string list list \<Rightarrow> 'f tracker" and
  reconnect_websocket :: "ws_env \<Rightarrow> 'f tracker \<Rightarrow> 'f tracker"
where
  "subscribe_symbols env st symbols =
     (if \<not> connect_ok env (ws_calls st) then Inl (ws_call (WsConnect False) st)
      else Inr (subscribe_chunks env
                  ((ws_call (WsConnect True) st)
                     \<lparr>ws := True, active_symbols := remdups symbols,
                      symbol_chunks := chunks chunk_size symbols\<rparr>)
                  (chunks chunk_size symbols)))"
| "subscribe_chunks env st [] = st\<lparr>ws_reconnect_count := 0\<rparr>"
| "subscribe_chunks env st (c # cs) =
     (if subscribe_ok env (ws_calls st)
      then subscribe_chunks env (sleep_ms 100 (ws_call (WsSubscribe c True) st)) cs
      else if ws_reconnect_count st + 1 < ws_max_reconnect_attempts
           then reconnect_websocket env
                  (sleep_ms (ws_reconnect_delay * 1000)
                     ((ws_call (WsSubscribe c False) st)
                        \<lparr>ws_reconnect_count := ws_reconnect_count st + 1\<rparr>))
           else subscribe_chunks env
                  ((ws_call (WsSubscribe c False) st)
                     \<lparr>ws_reconnect_count := ws_reconnect_count st + 1\<rparr>) cs)"
| "reconnect_websocket env st =
     (if ws st \<and> \<not> exit_ok env (ws_calls st) then ws_call (WsExit False) st
      else (case subscribe_symbols env
                   (sleep_ms (min (ws_reconnect_delay * 2 ^ ws_reconnect_count st) 60 * 1000)
                      (if ws st then ws_call (WsExit True) st else st))
                   (active_symbols st) of
              Inl st' \<Rightarrow> st'
            | Inr st' \<Rightarrow> st'))"
  by pat_completeness auto
termination
  by (relation "measures
        [\<lambda>x. case x of
               Inl (env, st, symbols) \<Rightarrow> ws_max_reconnect_attempts - ws_reconnect_count st
             | Inr (Inl (env, st, cs)) \<Rightarrow> ws_max_reconnect_attempts - ws_reconnect_count st
             | Inr (Inr (env, st)) \<Rightarrow> ws_max_reconnect_attempts - ws_reconnect_count st,
         \<lambda>x. case x of Inl _ \<Rightarrow> 1 | Inr (Inl _) \<Rightarrow> 0 | Inr (Inr _) \<Rightarrow> 2,
         \<lambda>x. case x of Inr (Inl (env, st, cs)) \<Rightarrow> length cs | _ \<Rightarrow> 0]")
     (auto simp: ws_call_def sleep_ms_def)

declare subscribe_symbols.simps [simp del]
declare subscribe_chunks.simps [simp del]
declare reconnect_websocket.simps [simp del]

text \<open>
  The liveness check of the loop of \<open>track\<close>; \<open>connected\<close> is what
  \<^verbatim>\<open>self.ws.is_connected()\<close> answers.
\<close>

definition health_check :: "ws_env \<Rightarrow> bool \<Rightarrow> 'f tracker \<Rightarrow> 'f tracker" where
  "health_check env connected st =
     (if ws st \<and> \<not> connected then reconnect_websocket env st else st)"

section \<open>The reader\<close>

text \<open>
  The store as the reader sees it: the answer to \<^verbatim>\<open>KEYS pattern\<close> and the answer to
  \<^verbatim>\<open>HGETALL key\<close> (empty for a key that does not exist).  The store is taken to answer.
\<close>

record store =
  keys_reply :: "string \<Rightarrow> string list"
  hgetall_reply :: "string \<Rightarrow> (string \<times> string) list"

text \<open>\<^verbatim>\<open>data.get(k, dflt)\<close> on a hash read from the store.\<close>

definition hash_get :: "(string \<times> string) list \<Rightarrow> string \<Rightarrow> 'f pyval \<Rightarrow> 'f pyval" where
  "hash_get d k dflt = (case map_of d k of None \<Rightarrow> dflt | Some s \<Rightarrow> PStr s)"

text \<open>The float fields of the dict built by \<open>get_option\<close>: name and stored key.\<close>

definition option_fields :: "(string \<times> string) list" where
  "option_fields =
     [(''bid_iv'', ''biv''), (''ask_iv'', ''aiv''), (''last_price'', ''lp''),
      (''mark_price'', ''mp''), (''index_price'', ''ip''), (''mark_iv'', ''miv''),
      (''underlying_price'', ''up''), (''open_interest'', ''oi''), (''delta'', ''d''),
      (''gamma'', ''g''), (''vega'', ''v''), (''theta'', ''t''),
      (''volume_24h'', ''v24''), (''turnover_24h'', ''t24'')]"

fun decode_fields ::
  "'f pyops \<Rightarrow> (string \<times> string) list \<Rightarrow> (string \<times> string) list
     \<Rightarrow> py_exn + (string \<times> 'f pyval) list" where
  "decode_fields py d [] = Inr []"
| "decode_fields py d ((name, k) # rest) =
     (case py_float py (hash_get d k (PInt 0)) of
        Inl e \<Rightarrow> Inl e
      | Inr x \<Rightarrow>
          (case decode_fields py d rest of
             Inl e \<Rightarrow> Inl e
           | Inr r \<Rightarrow> Inr ((name, PFloat x) # r)))"

text \<open>The dict literal of \<open>get_option\<close>.\<close>

definition decode_option ::
  "'f pyops \<Rightarrow> string \<Rightarrow> (string \<times> string) list \<Rightarrow> py_exn + (string \<times> 'f pyval) list" where
  "decode_option py name d =
     (case py_int py (hash_get d ''ts'' (PInt 0)) of
        Inl e \<Rightarrow> Inl e
      | Inr ts \<Rightarrow>
          (case decode_fields py d option_fields of
             Inl e \<Rightarrow> Inl e
           | Inr r \<Rightarrow> Inr ((''symbol'', PStr name) # (''timestamp'', PInt ts) # r)))"


text \<open>\<^verbatim>\<open>s.replace(old, "")\<close>: every occurrence of \<open>old\<close>, left to right, is removed.\<close>

function remove_all :: "string \<Rightarrow> string \<Rightarrow> string" where
  "remove_all old s =
     (if s = [] \<or> old = [] then s
      else if take (length old) s = old then remove_all old (drop (length old) s)
      else hd s # remove_all old (tl s))"
  by pat_completeness auto
termination
  by (relation "measure (\<lambda>(old, s). length s)") auto

declare remove_all.simps [simp del]

text \<open>The float fields of the dict built by \<open>get_all_options\<close>.\<close>

definition listed_fields :: "(string \<times> string) list" where
  "listed_fields =
     [(''bid_iv'', ''biv''), (''ask_iv'', ''aiv''), (''last_price'', ''lp''),
      (''mark_price'', ''mp''), (''mark_iv'', ''miv''), (''open_interest'', ''oi''),
      (''volume_24h'', ''v24''), (''turnover_24h'', ''t24'')]"

text \<open>\<^verbatim>\<open>float(data.get(k, 0)) if data.get(k) else 0\<close>\<close>

definition listed_value :: "'f pyops \<Rightarrow> (string \<times> string) list \<Rightarrow> string \<Rightarrow> py_exn + 'f pyval" where
  "listed_value py d k =
     (if truthy py (hash_get d k PNone)
      then (case py_float py (hash_get d k (PInt 0)) of
              Inl e \<Rightarrow> Inl e
            | Inr x \<Rightarrow> Inr (PFloat x))
      else Inr (PInt 0))"

fun decode_listed_fields ::
  "'f pyops \<Rightarrow> (string \<times> string) list \<Rightarrow> (string \<times> string) list
     \<Rightarrow> py_exn + (string \<times> 'f pyval) list" where
  "decode_listed_fields py d [] = Inr []"
| "decode_listed_fields py d ((name, k) # rest) =
     (case listed_value py d k of
        Inl e \<Rightarrow> Inl e
      | Inr v \<Rightarrow>
          (case decode_listed_fields py d rest of
             Inl e \<Rightarrow> Inl e
           | Inr r \<Rightarrow> Inr ((name, v) # r)))"

definition decode_listed ::
  "'f pyops \<Rightarrow> string \<Rightarrow> (string \<times> string) list \<Rightarrow> py_exn + (string \<times> 'f pyval) list" where
  "decode_listed py key d =
     (case py_int py (hash_get d ''ts'' (PInt 0)) of
        Inl e \<Rightarrow> Inl e
      | Inr ts \<Rightarrow>
          (case decode_listed_fields py d listed_fields of
             Inl e \<Rightarrow> Inl e
           | Inr r \<Rightarrow>
               Inr ((''symbol'', PStr (remove_all ''option:'' key)) # (''timestamp'', PInt ts) # r)))"

text \<open>The loop over \<^verbatim>\<open>zip(keys, results)\<close>: the first exception ends it.\<close>

fun collect_options ::
  "'f pyops \<Rightarrow> (string \<times> (string \<times> string) list) list
     \<Rightarrow> py_exn + (string \<times> 'f pyval) list list" where
  "collect_options py [] = Inr []"
| "collect_options py ((key, d) # rest) =
     (if d \<noteq> []
      then (case decode_listed py key d of
              Inl e \<Rightarrow> Inl e
            | Inr opt \<Rightarrow>
                (case collect_options py rest of
                   Inl e \<Rightarrow> Inl e
                 | Inr opts \<Rightarrow> Inr (opt # opts)))
      else collect_options py rest)"

definition options_pattern :: "string option \<Rightarrow> string" where
  "options_pattern asset =
     (case asset of
        None \<Rightarrow> ''option:*''
      | Some a \<Rightarrow> (if a \<noteq> [] then ''option:'' @ a @ ''-*'' else ''option:*''))"

text \<open>
  \<open>get_all_options\<close>: the commands sent to the store, in order, and the list returned.
\<close>

definition get_all_options ::
  "'f pyops \<Rightarrow> store \<Rightarrow> string option \<Rightarrow> redis_cmd list \<times> (string \<times> 'f pyval) list list" where
  "get_all_options py s asset =
     (let pattern = options_pattern asset;
          keys = keys_reply s pattern;
          results = map (hgetall_reply s) keys
      in (KEYS pattern # map HGETALL keys,
          (case collect_options py (zip keys results) of
             Inl e \<Rightarrow> []
           | Inr opts \<Rightarrow> opts)))"

text \<open>
  The key counts of \<open>get_summary\<close> with the commands that produce them, followed by the
  commands of \<open>get_stats\<close>; the fields copied from the stats are left out.
\<close>

definition get_summary :: "store \<Rightarrow> redis_cmd list \<times> (string \<times> nat) list" where
  "get_summary s =
     (let btc_count = length (keys_reply s ''option:BTC-*'');
          eth_count = length (keys_reply s ''option:ETH-*'');
          sol_count = length (keys_reply s ''option:SOL-*'')
      in ([KEYS ''option:BTC-*'', KEYS ''option:ETH-*'', KEYS ''option:SOL-*'',
           HGETALL ''stats'', DBSIZE, INFO ''memory''],
          [(''total_symbols'', btc_count + eth_count + sol_count),
           (''btc_options'', btc_count), (''eth_options'', eth_count),
           (''sol_options'', sol_count)]))"

section \<open>Built-ins on integral values, for evaluating examples\<close>

text \<open>
  To run the model on concrete inputs, the built-ins are given on floats with an integral
  value, each represented by that integer: \<^verbatim>\<open>float(i)\<close> is \<open>i\<close>, \<^verbatim>\<open>str\<close> prints the
  integer followed by \<^verbatim>\<open>.0\<close>, and \<^verbatim>\<open>int\<close> and \<^verbatim>\<open>float\<close> read a plain decimal
  numeral with an optional minus sign (\<^verbatim>\<open>float\<close> also with a trailing \<^verbatim>\<open>.0\<close>).
\<close>

definition digit_val :: "char \<Rightarrow> nat option" where
  "digit_val c = map_of (zip ''0123456789'' [0, 1, 2, 3, 4, 5, 6, 7, 8, 9]) c"

fun nat_of_digits :: "string \<Rightarrow> nat \<Rightarrow> nat option" where
  "nat_of_digits [] acc = Some acc"
| "nat_of_digits (c # cs) acc =
     (case digit_val c of None \<Rightarrow> None | Some v \<Rightarrow> nat_of_digits cs (10 * acc + v))"

definition sample_int_of_str :: "string \<Rightarrow> int option" where
  "sample_int_of_str s =
     (case s of
        [] \<Rightarrow> None
      | c # cs \<Rightarrow>
          if c = CHR ''-''
          then (if cs = [] then None else map_option (\<lambda>n. - int n) (nat_of_digits cs 0))
          else map_option int (nat_of_digits s 0))"

definition sample_float_of_str :: "string \<Rightarrow> int option" where
  "sample_float_of_str s =
     (if 2 \<le> length s \<and> drop (length s - 2) s = ''.0''
      then sample_int_of_str (take (length s - 2) s)
      else sample_int_of_str s)"

definition sample_py :: "int pyops" where
  "sample_py =
     \<lparr>float_of_int = (\<lambda>i. i),
      float_of_str = sample_float_of_str,
      int_of_str = sample_int_of_str,
      str_of_float = (\<lambda>x. str_of_int x @ ''.0''),
      float_nonzero = (\<lambda>x. x \<noteq> 0),
      str_of_container = (\<lambda>v. ''[...]'')\<rparr>"

text \<open>
  An inbound ticker for one instrument with a last price and a 24h volume, the item the
  callback builds from it at time 1700000000, and an older item.
\<close>

definition sample_data :: "int pyval" where
  "sample_data =
     PDict [(''symbol'', PStr ''BTC-29NOV24-100000-C''), (''lastPrice'', PStr ''65000''),
            (''volume24h'', PStr ''120000'')]"

definition sample_message :: "int pyval" where
  "sample_message = PDict [(''topic'', PStr ''tickers.BTC-29NOV24-100000-C''), (''data'', sample_data)]"

definition sample_item :: "int batch_item" where
  "sample_item =
     \<lparr>symbol = PStr ''BTC-29NOV24-100000-C'',
      data = [(''ts'', ''1700000000''), (''lp'', ''65000.0''), (''v24'', ''120000.0'')]\<rparr>"

definition old_item :: "int batch_item" where
  "old_item = \<lparr>symbol = PStr ''ETH-29NOV24-3000-P'', data = [(''ts'', ''1699999999'')]\<rparr>"

text \<open>
  A tracker at shutdown with one item still pending, and a store holding two records,
  the second with a last price that is not a number.
\<close>

definition sample_tracker :: "int tracker" where
  "sample_tracker =
     init_tracker\<lparr>batch_queue := [sample_item], stats_messages := 1, redis_client := True,
                  start_time := Some 1699990000, ws := True\<rparr>"

definition sample_store :: store where
  "sample_store =
     \<lparr>keys_reply =
        (\<lambda>p. if p = ''option:*''
              then [''option:BTC-29NOV24-100000-C'', ''option:ETH-29NOV24-3000-P'']
              else if p = ''option:BTC-*'' then [''option:BTC-29NOV24-100000-C'']
              else if p = ''option:ETH-*'' then [''option:ETH-29NOV24-3000-P'']
              else []),
      hgetall_reply =
        (\<lambda>k. if k = ''option:BTC-29NOV24-100000-C''
              then [(''ts'', ''1700000000''), (''lp'', ''65000.0''), (''v24'', ''120000.0'')]
              else if k = ''option:ETH-29NOV24-3000-P''
              then [(''ts'', ''1700000000''), (''lp'', ''n/a''), (''v24'', ''7.0'')]
              else [])\<rparr>"

text \<open>The record dict that the callback builds from the sample ticker.\<close>

definition sample_record :: "(string \<times> int pyval) list" where
  "sample_record =
     [(''ts'', PInt 1700000000), (''biv'', PNone), (''aiv'', PNone), (''lp'', PFloat 65000),
      (''mp'', PNone), (''ip'', PNone), (''miv'', PNone), (''up'', PNone), (''oi'', PNone),
      (''d'', PNone), (''g'', PNone), (''v'', PNone), (''t'', PNone),
      (''v24'', PFloat 120000), (''t24'', PNone)]"

section \<open>Observations on the stream log\<close>

text \<open>
  What the log of a run shows: the number of connection attempts and the number of
  subscribe calls that failed.
\<close>

fun is_connect :: "ws_event \<Rightarrow> bool" where
  "is_connect (WsConnect b) = True"
| "is_connect (WsSubscribe c b) = False"
| "is_connect (WsExit b) = False"
| "is_connect (Sleep ms) = False"

definition connect_attempts :: "ws_event list \<Rightarrow> nat" where
  "connect_attempts log = length (filter is_connect log)"

fun is_failed_subscribe :: "ws_event \<Rightarrow> bool" where
  "is_failed_subscribe (WsConnect b) = False"
| "is_failed_subscribe (WsSubscribe c b) = (\<not> b)"
| "is_failed_subscribe (WsExit b) = False"
| "is_failed_subscribe (Sleep ms) = False"

definition failed_subscribes :: "ws_event list \<Rightarrow> nat" where
  "failed_subscribes log = length (filter is_failed_subscribe log)"





text \<open>
  A stream on which every subscribe call fails, one on which every call succeeds, one
  on which only the call numbered 5 fails, and a tracker that is live on 101 symbols
  (two chunks).
\<close>

definition failing_env :: ws_env where
  "failing_env = \<lparr>connect_ok = (\<lambda>n. True), subscribe_ok = (\<lambda>n. False), exit_ok = (\<lambda>n. True)\<rparr>"

definition healthy_env :: ws_env where
  "healthy_env = \<lparr>connect_ok = (\<lambda>n. True), subscribe_ok = (\<lambda>n. True), exit_ok = (\<lambda>n. True)\<rparr>"


definition sample_symbols :: "string list" where
  "sample_symbols = map (\<lambda>n. ''BTC-29NOV24-'' @ str_of_nat n @ ''-C'') [0..<101]"

definition live_tracker :: "int tracker" where
  "live_tracker =
     init_tracker\<lparr>ws := True, active_symbols := sample_symbols,
                  symbol_chunks := chunks chunk_size sample_symbols\<rparr>"

section \<open>The symbol cache: expiry\<close>

text \<open>
  Claim C9, as amended.  The cache is a miss when the current time is strictly later
  than \<open>expires_at\<close>, when the file does not exist, and when the file exists but cannot
  be opened or parsed; a document that was parsed never makes \<open>load_cache\<close> raise; and
  the cache is a hit, returning the cached symbols, while the current time is not later
  than \<open>expires_at\<close> and the document has its four keys.
\<close>

theorem load_cache_expiry:
  "(cd_expires_at d = Stamp e \<and> e < now \<longrightarrow> load_cache now (Document d) = Inr None)
   \<and> load_cache now (NoFile :: 'a cache_file) = Inr None
   \<and> load_cache now (Unreadable :: 'a cache_file) = Inr None
   \<and> \<not> isl (load_cache now (Document d))
   \<and> (cd_updated_at d = Stamp u \<and> cd_expires_at d = Stamp e \<and> now \<le> e
        \<and> cd_count d = Some c \<and> cd_symbols d = Some s
      \<longrightarrow> load_cache now (Document d) = Inr (Some s))"
  by (auto simp: load_cache_def load_cache_try_def read_stamp_def
           split: stamp.splits sum.splits option.splits)

theorem load_cache_expiry_witness:
  "load_cache 200
     (Document \<lparr>cd_symbols = Some [''BTC-1''], cd_count = Some 1,
                cd_updated_at = Stamp 0, cd_expires_at = Stamp 100\<rparr>) = Inr None
   \<and> load_cache 50
     (Document \<lparr>cd_symbols = Some [''BTC-1''], cd_count = Some 1,
                cd_updated_at = Stamp 0, cd_expires_at = Stamp 100\<rparr>) = Inr (Some [''BTC-1''])"
  using load_cache_expiry [of "\<lparr>cd_symbols = Some [''BTC-1''], cd_count = Some 1,
                cd_updated_at = Stamp 0, cd_expires_at = Stamp 100\<rparr>" 100 200 0 1 "[''BTC-1'']"]
        load_cache_expiry [of "\<lparr>cd_symbols = Some [''BTC-1''], cd_count = Some 1,
                cd_updated_at = Stamp 0, cd_expires_at = Stamp 100\<rparr>" 100 50 0 1 "[''BTC-1'']"]
  by auto

text \<open>
  At the instant \<open>expires_at\<close> itself the time is not strictly less than \<open>expires_at\<close>,
  and the cached symbols are still returned.
\<close>

theorem load_cache_boundary_counterexample:
  "\<not> ((100::int) < 100)
   \<and> load_cache 100
     (Document \<lparr>cd_symbols = Some [''BTC-1''], cd_count = Some 1,
                cd_updated_at = Stamp 0, cd_expires_at = Stamp 100\<rparr>) = Inr (Some [''BTC-1''])"
  by (simp add: load_cache_def load_cache_try_def read_stamp_def)

text \<open>
  The existence check is not guarded: when the cache path cannot be examined, the
  \<^verbatim>\<open>OSError\<close> leaves \<open>load_cache\<close>.
\<close>

lemma load_cache_stat_failure: "load_cache now (StatFails :: 'a cache_file) = Inl OSError"
  by (simp add: load_cache_def)

section \<open>The ingestion buffer: bounded, drop-oldest\<close>

lemma length_deque_append: "length q \<le> m \<Longrightarrow> length (deque_append m q x) \<le> m"
  by (cases q) (auto simp: deque_append_def)

lemma handle_message_bounded:
  "length (batch_queue st) \<le> maxlen
     \<Longrightarrow> length (batch_queue (handle_message py now st m)) \<le> maxlen"
  by (auto simp: handle_message_def Let_def length_deque_append split: sum.splits option.splits)

lemma handle_messages_bounded:
  "length (batch_queue st) \<le> maxlen
     \<Longrightarrow> length (batch_queue (handle_messages py st ms)) \<le> maxlen"
  unfolding handle_messages_def
proof (induction ms arbitrary: st)
  case Nil
  then show ?case by simp
next
  case (Cons a ms)
  obtain t m where a: "a = (t, m)" by (cases a)
  show ?case
    using Cons.IH [OF handle_message_bounded [OF Cons.prems, of py t m]] a by simp
qed

text \<open>
  Claim C2.  The capacity is 10,000.  Whatever messages the callback receives after
  construction, the buffer never holds more than the capacity; each call keeps a buffer
  within capacity so; and a call that enqueues an item into a full buffer returns with
  the oldest item dropped and the new one at the end.  The callback is a total function
  that returns the next state: it has no failing or waiting outcome.
\<close>

theorem buffer_bounded_drop_oldest:
  "maxlen = 10000
   \<and> length (batch_queue (handle_messages py init_tracker ms)) \<le> maxlen
   \<and> (length (batch_queue st) \<le> maxlen
        \<longrightarrow> length (batch_queue (handle_message py now st m)) \<le> maxlen)
   \<and> (length (batch_queue st) = maxlen \<and> batch_item_of py now m = Inr (Some it)
        \<longrightarrow> batch_queue (handle_message py now st m) = tl (batch_queue st) @ [it])"
proof -
  have "length (batch_queue (init_tracker :: 'a tracker)) \<le> maxlen"
    by (simp add: init_tracker_def)
  then have "length (batch_queue (handle_messages py init_tracker ms)) \<le> maxlen"
    by (rule handle_messages_bounded)
  moreover have "length (batch_queue st) = maxlen \<and> batch_item_of py now m = Inr (Some it)
        \<longrightarrow> batch_queue (handle_message py now st m) = tl (batch_queue st) @ [it]"
    by (auto simp: handle_message_def Let_def deque_append_def maxlen_def)
  ultimately show ?thesis
    using handle_message_bounded [of st py now m] by (simp add: maxlen_def)
qed

lemma sample_item_built:
  "batch_item_of sample_py 1700000000 sample_message = Inr (Some sample_item)"
  by (simp add: sample_message_def sample_data_def sample_item_def batch_item_of_def py_get_def
      truthy_def quote_record_def wire_fields_def to_float_def py_float_def sample_py_def
      sample_float_of_str_def sample_int_of_str_def digit_val_def encode_def py_str_def
      str_of_int_def str_of_nat.simps digit_char_def)

theorem buffer_bounded_drop_oldest_witness:
  "length (batch_queue (handle_messages sample_py init_tracker [(1700000000, sample_message)])) \<le> 10000
   \<and> batch_queue (handle_message sample_py 1700000000
                    (init_tracker\<lparr>batch_queue := replicate 10000 old_item\<rparr>) sample_message)
     = replicate 9999 old_item @ [sample_item]"
proof -
  have full: "length (batch_queue ((init_tracker :: int tracker)\<lparr>batch_queue := replicate 10000 old_item\<rparr>)) = maxlen"
    by (simp add: maxlen_def)
  have tl: "tl (replicate 10000 old_item) = replicate 9999 old_item"
    by (simp add: tl_replicate)
  show ?thesis
    using buffer_bounded_drop_oldest
            [of sample_py "[(1700000000, sample_message)]"
                "init_tracker\<lparr>batch_queue := replicate 10000 old_item\<rparr>"
                1700000000 sample_message sample_item]
          sample_item_built full tl
    by (simp add: maxlen_def)
qed

section \<open>The conversion helper: an uncaught exception\<close>

text \<open>
  Claim C10.  The helper catches \<^verbatim>\<open>ValueError\<close> and \<^verbatim>\<open>TypeError\<close> only: for the
  integer \<open>10^400\<close>, which a JSON document can carry, \<^verbatim>\<open>float\<close> raises
  \<^verbatim>\<open>OverflowError\<close> and the exception leaves the helper.
\<close>

theorem to_float_overflow: "to_float py (PInt (10 ^ 400)) = Inl OverflowError"
  by (simp add: to_float_def py_float_def double_limit_def)

text \<open>
  For every other input the helper returns: \<^verbatim>\<open>None\<close> or the converted float.
\<close>

lemma to_float_returns:
  "(\<forall>i. v = PInt i \<longrightarrow> \<bar>i\<bar> < double_limit)
     \<Longrightarrow> \<exists>r. to_float py v = Inr r \<and> (r = PNone \<or> (\<exists>x. r = PFloat x))"
  by (cases v) (auto simp: to_float_def py_float_def split: option.splits)

section \<open>The flush task: what one tick drains and sends\<close>

lemma popleft_n_take_drop: "n \<le> length q \<Longrightarrow> popleft_n n q = Inr (take n q, drop n q)"
proof (induction n arbitrary: q)
  case 0
  then show ?case by simp
next
  case (Suc n)
  then obtain x xs where q: "q = x # xs" by (cases q) auto
  with Suc.prems have "n \<le> length xs" by simp
  from Suc.IH [OF this] q show ?case by (simp add: popleft_def)
qed

lemma pipe_items_all:
  "list_all (\<lambda>it. data it \<noteq> []) b \<Longrightarrow>
     pipe_items py b =
       Inr (concat (map (\<lambda>it. [HSET (''option:'' @ py_str py (symbol it)) (data it),
                                EXPIRE (''option:'' @ py_str py (symbol it)) 86400]) b))"
  by (induction b) auto

lemma batch_processor_tick_result:
  "(batch_queue st = [] \<longrightarrow> batch_processor_tick py now_s exec_ok st = (None, st))
   \<and> (batch_queue st \<noteq> [] \<and> list_all (\<lambda>it. data it \<noteq> []) (batch_queue st) \<longrightarrow>
        batch_processor_tick py now_s exec_ok st =
          (Some (concat (map (\<lambda>it. [HSET (''option:'' @ py_str py (symbol it)) (data it),
                                     EXPIRE (''option:'' @ py_str py (symbol it)) 86400])
                          (take (min (length (batch_queue st)) 200) (batch_queue st)))
                 @ [HINCRBY ''stats'' ''messages'' (int (min (length (batch_queue st)) 200)),
                    HSET ''stats'' [(''last_update'', now_s)],
                    HINCRBY ''stats'' ''batches'' 1]),
           st\<lparr>batch_queue := drop (min (length (batch_queue st)) 200) (batch_queue st),
              stats_batches := (if exec_ok then stats_batches st + 1 else stats_batches st)\<rparr>))"
proof (cases "batch_queue st = []")
  case True
  then show ?thesis by (simp add: batch_processor_tick_def)
next
  case False
  define n where "n = min (length (batch_queue st)) 200"
  have n_pos: "0 < n" using False by (cases "batch_queue st") (auto simp: n_def)
  have pop: "popleft_n n (batch_queue st) = Inr (take n (batch_queue st), drop n (batch_queue st))"
    by (rule popleft_n_take_drop) (simp add: n_def)
  have ne: "take n (batch_queue st) \<noteq> []" using False n_pos by simp
  have len: "min (length (batch_queue st)) n = n" by (simp add: n_def)
  have pipe: "pipe_items py (take n (batch_queue st)) =
       Inr (concat (map (\<lambda>it. [HSET (''option:'' @ py_str py (symbol it)) (data it),
                                EXPIRE (''option:'' @ py_str py (symbol it)) 86400])
                     (take n (batch_queue st))))"
    if "list_all (\<lambda>it. data it \<noteq> []) (batch_queue st)"
    by (rule pipe_items_all) (use that in \<open>auto simp: list_all_iff dest: in_set_takeD\<close>)
  have tick: "batch_processor_tick py now_s exec_ok st =
      (case popleft_n n (batch_queue st) of
              Inl e \<Rightarrow> (None, st\<lparr>batch_queue := []\<rparr>)
            | Inr (batch, rest) \<Rightarrow>
                (let st1 = st\<lparr>batch_queue := rest\<rparr>
                 in if batch = [] then (None, st1)
                    else (case pipe_items py batch of
                            Inl e \<Rightarrow> (None, st1)
                          | Inr cs \<Rightarrow>
                              (let pipe = cs @ [HINCRBY ''stats'' ''messages'' (int (length batch)),
                                               HSET ''stats'' [(''last_update'', now_s)],
                                               HINCRBY ''stats'' ''batches'' 1]
                               in if exec_ok
                                  then (Some pipe, st1\<lparr>stats_batches := stats_batches st1 + 1\<rparr>)
                                  else (Some pipe, st1)))))"
    using False by (simp add: batch_processor_tick_def batch_size_def n_def)
  show ?thesis
    unfolding tick pop n_def [symmetric]
    using False ne pipe len by (simp add: Let_def del: take_eq_Nil)
qed

lemma encode_quote_record_nonempty:
  "quote_record py now d = Inr r \<Longrightarrow> encode py r \<noteq> []"
  by (auto simp: quote_record_def encode_def split: sum.splits)

lemma batch_item_of_data:
  "batch_item_of py now m = Inr (Some it) \<Longrightarrow> data it \<noteq> []"
  by (auto simp: batch_item_of_def encode_quote_record_nonempty split: sum.splits if_splits)

lemma deque_append_all:
  "list_all P q \<Longrightarrow> P x \<Longrightarrow> list_all P (deque_append m q x)"
  by (cases q) (auto simp: deque_append_def)

lemma handle_message_items:
  "list_all (\<lambda>it. data it \<noteq> []) (batch_queue st)
     \<Longrightarrow> list_all (\<lambda>it. data it \<noteq> []) (batch_queue (handle_message py now st m))"
  by (auto simp: handle_message_def Let_def batch_item_of_data deque_append_all
           split: sum.splits option.splits)

lemma batch_processor_tick_items:
  "list_all (\<lambda>it. data it \<noteq> []) (batch_queue st)
     \<Longrightarrow> list_all (\<lambda>it. data it \<noteq> []) (batch_queue (snd (batch_processor_tick py now_s ok st)))"
proof (cases "batch_queue st = []")
  case True
  then show ?thesis using batch_processor_tick_result [of st py now_s ok] by simp
next
  case False
  assume a: "list_all (\<lambda>it. data it \<noteq> []) (batch_queue st)"
  have "list_all (\<lambda>it. data it \<noteq> []) (drop n (batch_queue st))" for n
    using a by (auto simp: list_all_iff dest: in_set_dropD)
  with False a show ?thesis using batch_processor_tick_result [of st py now_s ok] by simp
qed

text \<open>
  Claim C1, as amended.  On an empty buffer a tick sends nothing and changes nothing.
  On a buffer of \<open>n \<ge> 1\<close> items (each with at least one stored field, as every item
  built by the callback has) a tick drains the \<open>min n 200\<close> oldest items in order,
  sends for each one hash-set of its fields under \<^verbatim>\<open>option:<symbol>\<close> and one expiry
  of 86,400 seconds, then the three stats commands, and leaves the newest
  \<open>n - min n 200\<close> items in their order.
\<close>

theorem flush_tick_drains:
  "(batch_queue st = [] \<longrightarrow> batch_processor_tick py now_s exec_ok st = (None, st))
   \<and> (batch_queue st \<noteq> [] \<and> list_all (\<lambda>it. data it \<noteq> []) (batch_queue st) \<longrightarrow>
        batch_size = 200
        \<and> fst (batch_processor_tick py now_s exec_ok st) =
            Some (concat (map (\<lambda>it. [HSET (''option:'' @ py_str py (symbol it)) (data it),
                                      EXPIRE (''option:'' @ py_str py (symbol it)) 86400])
                           (take (min (length (batch_queue st)) 200) (batch_queue st)))
                  @ [HINCRBY ''stats'' ''messages'' (int (min (length (batch_queue st)) 200)),
                     HSET ''stats'' [(''last_update'', now_s)],
                     HINCRBY ''stats'' ''batches'' 1])
        \<and> batch_queue (snd (batch_processor_tick py now_s exec_ok st)) =
            drop (min (length (batch_queue st)) 200) (batch_queue st)
        \<and> length (batch_queue (snd (batch_processor_tick py now_s exec_ok st))) =
            length (batch_queue st) - min (length (batch_queue st)) 200)"
  using batch_processor_tick_result [of st py now_s exec_ok]
  by (auto simp: batch_size_def)

theorem flush_tick_drains_witness:
  "fst (batch_processor_tick sample_py ''1700000002.5'' True
         (init_tracker\<lparr>batch_queue := replicate 250 sample_item\<rparr>))
   = Some (concat (replicate 200
              [HSET ''option:BTC-29NOV24-100000-C''
                 [(''ts'', ''1700000000''), (''lp'', ''65000.0''), (''v24'', ''120000.0'')],
               EXPIRE ''option:BTC-29NOV24-100000-C'' 86400])
            @ [HINCRBY ''stats'' ''messages'' 200,
               HSET ''stats'' [(''last_update'', ''1700000002.5'')],
               HINCRBY ''stats'' ''batches'' 1])
   \<and> batch_queue (snd (batch_processor_tick sample_py ''1700000002.5'' True
         (init_tracker\<lparr>batch_queue := replicate 250 sample_item\<rparr>)))
     = replicate 50 sample_item"
  using flush_tick_drains [of "init_tracker\<lparr>batch_queue := replicate 250 sample_item\<rparr>"
                             sample_py "''1700000002.5''" True]
  by (simp add: init_tracker_def sample_item_def py_str_def list_all_iff map_replicate_const)

text \<open>
  With nothing pending, a tick sends no stats increment: it sends nothing.
\<close>

theorem flush_tick_empty_counterexample:
  "batch_processor_tick sample_py ''1700000002.5'' True init_tracker = (None, init_tracker)"
  by (simp add: batch_processor_tick_def init_tracker_def)


lemmas sample_simps =
  sample_py_def sample_float_of_str_def sample_int_of_str_def digit_val_def
  str_of_int_def str_of_nat.simps digit_char_def py_str_def py_float_def py_int_def
  truthy_def hash_get_def double_limit_def

section \<open>Shutdown: the pending items are not written\<close>

text \<open>
  Whatever the state, \<open>cleanup\<close> sends at most the three hash-sets of the stats record.
\<close>

lemma cleanup_sends_stats_only:
  "set (fst (cleanup now_s rate_s store_ok ex st))
     \<subseteq> {HSET ''stats'' [(''shutdown_time'', now_s)],
         HSET ''stats'' [(''total_messages'', str_of_nat (stats_messages st))],
         HSET ''stats'' [(''avg_msg_rate'', rate_s)]}"
proof (cases "start_time st")
  case None
  then show ?thesis by (simp add: cleanup_def)
next
  case (Some t0)
  then show ?thesis by (auto simp add: cleanup_def)
qed

text \<open>
  Claim C7.  At shutdown with one item pending, a reachable store and an open stream,
  \<open>cleanup\<close> writes the three final stats fields and closes the stream, and sends
  nothing for the pending item: no hash-set under \<^verbatim>\<open>option:BTC-29NOV24-100000-C\<close> and
  no expiry.  The method returns no new state, so the item stays in the buffer, unwritten.
\<close>

theorem cleanup_leaves_buffer_unwritten:
  "batch_queue sample_tracker = [sample_item]
   \<and> cleanup ''1700000100.0'' ''0.01'' (\<lambda>i. True) True sample_tracker =
       ([HSET ''stats'' [(''shutdown_time'', ''1700000100.0'')],
         HSET ''stats'' [(''total_messages'', ''1'')],
         HSET ''stats'' [(''avg_msg_rate'', ''0.01'')]],
        [WsExit True], None)"
  by (simp add: cleanup_def sample_tracker_def init_tracker_def str_of_nat.simps digit_char_def)

section \<open>The reader: how keys are enumerated\<close>

text \<open>
  Claim C8.  \<open>get_all_options\<close> and \<open>get_summary\<close> enumerate keys with the
  \<^verbatim>\<open>KEYS\<close> command, one enumeration of the whole keyspace per pattern, not with a cursor.
\<close>

theorem reader_scans_with_keys:
  "fst (get_all_options sample_py sample_store None) =
     [KEYS ''option:*'', HGETALL ''option:BTC-29NOV24-100000-C'',
      HGETALL ''option:ETH-29NOV24-3000-P'']
   \<and> fst (get_summary sample_store) =
     [KEYS ''option:BTC-*'', KEYS ''option:ETH-*'', KEYS ''option:SOL-*'',
      HGETALL ''stats'', DBSIZE, INFO ''memory'']"
  by (simp add: get_all_options_def get_summary_def options_pattern_def sample_store_def Let_def)

section \<open>The reader: a value that is not a number\<close>













section \<open>The codec: what survives encoding and decoding\<close>

lemma to_float_shape:
  "to_float py v = Inr w \<Longrightarrow> w = PNone \<or> (\<exists>x. w = PFloat x)"
  by (auto simp: to_float_def split: if_splits sum.splits py_exn.splits)

lemma to_float_fields_shape:
  "to_float_fields py d fs = Inr r \<Longrightarrow>
     map fst r = map fst fs \<and> list_all (\<lambda>(k, v). v = PNone \<or> (\<exists>x. v = PFloat x)) r"
proof (induction fs arbitrary: r)
  case Nil
  then show ?case by simp
next
  case (Cons a fs)
  obtain k w where a: "a = (k, w)" by (cases a)
  from Cons.prems a obtain x v r' where
    "py_get d w = Inr x" and v: "to_float py x = Inr v"
    and r': "to_float_fields py d fs = Inr r'" and r: "r = (k, v) # r'"
    by (auto split: sum.splits)
  from Cons.IH [OF r'] to_float_shape [OF v] r a show ?case by auto
qed

lemma quote_record_shape:
  assumes "quote_record py now d = Inr r"
  shows "map fst r = ''ts'' # map fst wire_fields"
    and "map_of r ''ts'' = Some (PInt now)"
    and "(k, v) \<in> set r \<Longrightarrow> k \<noteq> ''ts'' \<Longrightarrow> v = PNone \<or> (\<exists>x. v = PFloat x)"
proof -
  from assms obtain r' where r': "to_float_fields py d wire_fields = Inr r'"
    and r: "r = (''ts'', PInt now) # r'"
    by (auto simp: quote_record_def split: sum.splits)
  from to_float_fields_shape [OF r'] r
  show "map fst r = ''ts'' # map fst wire_fields" by simp
  from r show "map_of r ''ts'' = Some (PInt now)" by simp
  assume "(k, v) \<in> set r" "k \<noteq> ''ts''"
  with r have "(k, v) \<in> set r'" by auto
  with to_float_fields_shape [OF r']
  show "v = PNone \<or> (\<exists>x. v = PFloat x)" by (auto simp: list_all_iff)
qed

lemma map_of_encode_absent:
  "k \<notin> fst ` set r \<Longrightarrow> map_of (encode py r) k = None"
  by (induction r) (auto simp: encode_def)

lemma map_of_encode:
  "distinct (map fst r) \<Longrightarrow>
     map_of (encode py r) k =
       (case map_of r k of
          None \<Rightarrow> None
        | Some v \<Rightarrow> if v = PNone then None else Some (py_str py v))"
proof (induction r)
  case Nil
  then show ?case by (simp add: encode_def)
next
  case (Cons a r)
  obtain k' v' where a: "a = (k', v')" by (cases a)
  from Cons.prems a have notin: "k' \<notin> fst ` set r" and d: "distinct (map fst r)" by auto
  have enc: "encode py ((k', v') # r) =
      (if v' = PNone then encode py r else (k', py_str py v') # encode py r)"
    by (simp add: encode_def)
  show ?case
    using Cons.IH [OF d] map_of_encode_absent [OF notin, of py]
    unfolding a enc by simp
qed

lemma decode_fields_ok:
  "(\<And>nm k. (nm, k) \<in> set fs \<Longrightarrow> py_float py (hash_get d k (PInt 0)) = Inr (g k))
     \<Longrightarrow> decode_fields py d fs = Inr (map (\<lambda>(nm, k). (nm, PFloat (g k))) fs)"
proof (induction fs)
  case Nil
  then show ?case by simp
next
  case (Cons a fs)
  obtain nm k where a: "a = (nm, k)" by (cases a)
  have hd: "py_float py (hash_get d k (PInt 0)) = Inr (g k)"
    using Cons.prems [of nm k] a by simp
  have "decode_fields py d fs = Inr (map (\<lambda>(nm, k). (nm, PFloat (g k))) fs)"
    by (rule Cons.IH) (use Cons.prems in auto)
  with hd a show ?case by simp
qed

lemma wire_keys_distinct: "distinct (''ts'' # map fst wire_fields)"
  by (simp add: wire_fields_def)

lemma option_field_keys: "(nm, k) \<in> set option_fields \<Longrightarrow> k \<in> set (map fst wire_fields) \<and> k \<noteq> ''ts''"
  by (auto simp: option_fields_def wire_fields_def)

lemma codec_fields:
  assumes qr: "quote_record py now d = Inr r"
    and rf: "\<And>k x. (k, PFloat x) \<in> set r \<Longrightarrow> float_of_str py (str_of_float py x) = Some x"
    and f: "(nm, k) \<in> set option_fields"
  shows "py_float py (hash_get (encode py r) k (PInt 0)) =
           Inr (case map_of r k of Some (PFloat x) \<Rightarrow> x | _ \<Rightarrow> float_of_int py 0)"
proof -
  have dist: "distinct (map fst r)"
    using quote_record_shape(1) [OF qr] wire_keys_distinct by simp
  from option_field_keys [OF f] quote_record_shape(1) [OF qr]
  have "k \<in> fst ` set r" and nts: "k \<noteq> ''ts''" by (auto simp flip: set_map)
  then obtain v where kv: "(k, v) \<in> set r" by auto
  with dist have mo: "map_of r k = Some v" by simp
  from quote_record_shape(3) [OF qr kv nts]
  consider "v = PNone" | x where "v = PFloat x" by blast
  then show ?thesis
  proof cases
    case 1
    then show ?thesis
      using mo by (simp add: map_of_encode [OF dist] hash_get_def py_float_def double_limit_def)
  next
    case 2
    with kv have "float_of_str py (str_of_float py x) = Some x" using rf by blast
    with 2 show ?thesis
      using mo by (simp add: map_of_encode [OF dist] hash_get_def py_float_def py_str_def)
  qed
qed

lemma codec_decode:
  assumes qr: "quote_record py now d = Inr r"
    and ri: "int_of_str py (str_of_int now) = Some now"
    and rf: "\<And>k x. (k, PFloat x) \<in> set r \<Longrightarrow> float_of_str py (str_of_float py x) = Some x"
  shows "decode_option py name (encode py r) =
           Inr ((''symbol'', PStr name) # (''timestamp'', PInt now)
                # map (\<lambda>(nm, k). (nm, PFloat (case map_of r k of
                                                  Some (PFloat x) \<Rightarrow> x
                                                | _ \<Rightarrow> float_of_int py 0)))
                      option_fields)"
proof -
  have dist: "distinct (map fst r)"
    using quote_record_shape(1) [OF qr] wire_keys_distinct by simp
  have ts: "py_int py (hash_get (encode py r) ''ts'' (PInt 0)) = Inr now"
    using quote_record_shape(2) [OF qr] ri
    by (simp add: map_of_encode [OF dist] hash_get_def py_int_def py_str_def)
  have fs: "decode_fields py (encode py r) option_fields =
      Inr (map (\<lambda>(nm, k). (nm, PFloat (case map_of r k of
                                                  Some (PFloat x) \<Rightarrow> x
                                                | _ \<Rightarrow> float_of_int py 0))) option_fields)"
    by (rule decode_fields_ok) (rule codec_fields [OF qr rf])
  show ?thesis by (simp add: decode_option_def ts fs)
qed

lemma codec_encode:
  assumes qr: "quote_record py now d = Inr r"
  shows "map_of (encode py r) k =
           (case map_of r k of
              Some (PFloat x) \<Rightarrow> Some (str_of_float py x)
            | Some (PInt i) \<Rightarrow> Some (str_of_int i)
            | _ \<Rightarrow> None)"
proof -
  have dist: "distinct (map fst r)"
    using quote_record_shape(1) [OF qr] wire_keys_distinct by simp
  show ?thesis
  proof (cases "map_of r k")
    case None
    then show ?thesis by (simp add: map_of_encode [OF dist])
  next
    case (Some v)
    then have kv: "(k, v) \<in> set r" by (rule map_of_SomeD)
    show ?thesis
    proof (cases "k = ''ts''")
      case True
      with Some quote_record_shape(2) [OF qr] show ?thesis
        by (auto simp: map_of_encode [OF dist] py_str_def)
    next
      case False
      from quote_record_shape(3) [OF qr kv False] Some show ?thesis
        by (auto simp: map_of_encode [OF dist] py_str_def)
    qed
  qed
qed

text \<open>
  Claim C3, as amended.  For every record dict that the callback builds, the encoding
  holds exactly the fields that are present, each under its short key with the string of
  its value, and nothing for an absent field (no empty string, no zero).  When
  \<^verbatim>\<open>int(str(ts))\<close> and \<^verbatim>\<open>float(str(x))\<close> give back the timestamp and every present
  value, decoding the encoding succeeds and returns, under the long names, the timestamp,
  each present value unchanged, and \<^verbatim>\<open>float(0)\<close> for each absent field.
\<close>

theorem codec_round_trip:
  "quote_record py now d = Inr r
   \<and> int_of_str py (str_of_int now) = Some now
   \<and> (\<forall>k x. (k, PFloat x) \<in> set r \<longrightarrow> float_of_str py (str_of_float py x) = Some x)
   \<longrightarrow>
     (\<forall>k. map_of (encode py r) k =
           (case map_of r k of
              Some (PFloat x) \<Rightarrow> Some (str_of_float py x)
            | Some (PInt i) \<Rightarrow> Some (str_of_int i)
            | _ \<Rightarrow> None))
     \<and> decode_option py name (encode py r) =
           Inr ((''symbol'', PStr name) # (''timestamp'', PInt now)
                # map (\<lambda>(nm, k). (nm, PFloat (case map_of r k of
                                                  Some (PFloat x) \<Rightarrow> x
                                                | _ \<Rightarrow> float_of_int py 0)))
                      option_fields)"
  using codec_encode codec_decode by blast


lemma sample_record_built:
  "quote_record sample_py 1700000000 sample_data = Inr sample_record"
  by (simp add: quote_record_def sample_record_def sample_data_def wire_fields_def to_float_def
      py_get_def sample_simps)

theorem codec_round_trip_witness:
  "map_of (encode sample_py sample_record) ''lp'' = Some ''65000.0''
   \<and> map_of (encode sample_py sample_record) ''biv'' = None
   \<and> decode_option sample_py ''BTC-29NOV24-100000-C'' (encode sample_py sample_record) =
       Inr [(''symbol'', PStr ''BTC-29NOV24-100000-C''), (''timestamp'', PInt 1700000000),
            (''bid_iv'', PFloat 0), (''ask_iv'', PFloat 0), (''last_price'', PFloat 65000),
            (''mark_price'', PFloat 0), (''index_price'', PFloat 0), (''mark_iv'', PFloat 0),
            (''underlying_price'', PFloat 0), (''open_interest'', PFloat 0),
            (''delta'', PFloat 0), (''gamma'', PFloat 0), (''vega'', PFloat 0),
            (''theta'', PFloat 0), (''volume_24h'', PFloat 120000),
            (''turnover_24h'', PFloat 0)]"
proof -
  have ri: "int_of_str sample_py (str_of_int 1700000000) = Some 1700000000"
    by (simp add: sample_simps)
  have rf: "\<forall>k x. (k, PFloat x) \<in> set sample_record
              \<longrightarrow> float_of_str sample_py (str_of_float sample_py x) = Some x"
    by (auto simp: sample_record_def sample_simps)
  from codec_round_trip [of sample_py 1700000000 sample_data sample_record
                            "''BTC-29NOV24-100000-C''"]
       sample_record_built ri rf
  have enc: "\<forall>k. map_of (encode sample_py sample_record) k =
           (case map_of sample_record k of
              Some (PFloat x) \<Rightarrow> Some (str_of_float sample_py x)
            | Some (PInt i) \<Rightarrow> Some (str_of_int i)
            | _ \<Rightarrow> None)"
    and dec: "decode_option sample_py ''BTC-29NOV24-100000-C'' (encode sample_py sample_record) =
           Inr ((''symbol'', PStr ''BTC-29NOV24-100000-C'') # (''timestamp'', PInt 1700000000)
                # map (\<lambda>(nm, k). (nm, PFloat (case map_of sample_record k of
                                                  Some (PFloat x) \<Rightarrow> x
                                                | _ \<Rightarrow> float_of_int sample_py 0)))
                      option_fields)"
    by blast+
  show ?thesis
    unfolding dec enc [rule_format]
    by (simp add: sample_record_def option_fields_def sample_simps)
qed

text \<open>
  The bid IV is absent from the sample record and from its encoding, and the decoded
  record has it as the float zero: an absent field does not stay absent.
\<close>

theorem codec_absent_becomes_zero_counterexample:
  "map_of sample_record ''biv'' = Some PNone
   \<and> encode sample_py sample_record =
       [(''ts'', ''1700000000''), (''lp'', ''65000.0''), (''v24'', ''120000.0'')]
   \<and> decode_option sample_py ''BTC-29NOV24-100000-C'' (encode sample_py sample_record) =
       Inr [(''symbol'', PStr ''BTC-29NOV24-100000-C''), (''timestamp'', PInt 1700000000),
            (''bid_iv'', PFloat 0), (''ask_iv'', PFloat 0), (''last_price'', PFloat 65000),
            (''mark_price'', PFloat 0), (''index_price'', PFloat 0), (''mark_iv'', PFloat 0),
            (''underlying_price'', PFloat 0), (''open_interest'', PFloat 0),
            (''delta'', PFloat 0), (''gamma'', PFloat 0), (''vega'', PFloat 0),
            (''theta'', PFloat 0), (''volume_24h'', PFloat 120000),
            (''turnover_24h'', PFloat 0)]"
  by (simp add: sample_record_def encode_def decode_option_def option_fields_def sample_simps)

section \<open>The subscription manager: reconnection\<close>

lemma connect_attempts_append [simp]:
  "connect_attempts (xs @ ys) = connect_attempts xs + connect_attempts ys"
  by (simp add: connect_attempts_def)

lemma connect_bound:
  "\<And>st'. subscribe_symbols env st symbols = Inl st' \<or> subscribe_symbols env st symbols = Inr st'
      \<Longrightarrow> connect_attempts (ws_log st')
            \<le> connect_attempts (ws_log st)
               + max 1 (ws_max_reconnect_attempts - ws_reconnect_count st)"
  "connect_attempts (ws_log (subscribe_chunks env st cs))
     \<le> connect_attempts (ws_log st) + (ws_max_reconnect_attempts - 1 - ws_reconnect_count st)"
  "connect_attempts (ws_log (reconnect_websocket env st))
     \<le> connect_attempts (ws_log st) + max 1 (ws_max_reconnect_attempts - ws_reconnect_count st)"
proof (induction env st symbols and env st cs and env st
       rule: subscribe_symbols_subscribe_chunks_reconnect_websocket.induct)
  case (1 env st symbols)
  show ?case
  proof (cases "connect_ok env (ws_calls st)")
    case False
    with "1.prems" show ?thesis
      by (auto simp: subscribe_symbols.simps ws_call_def connect_attempts_def)
  next
    case True
    from "1.IH" [OF _] True "1.prems" show ?thesis
      by (auto simp: subscribe_symbols.simps ws_call_def connect_attempts_def
                     ws_max_reconnect_attempts_def)
  qed
next
  case (2 env st)
  show ?case by (simp add: subscribe_chunks.simps)
next
  case (3 env st c cs)
  show ?case
  proof (cases "subscribe_ok env (ws_calls st)")
    case True
    from "3.IH"(1) [OF True] True show ?thesis
      by (simp add: subscribe_chunks.simps ws_call_def sleep_ms_def connect_attempts_def)
  next
    case False
    show ?thesis
    proof (cases "ws_reconnect_count st + 1 < ws_max_reconnect_attempts")
      case True
      from "3.IH"(2) [OF False True] False True show ?thesis
        by (simp add: subscribe_chunks.simps ws_call_def sleep_ms_def connect_attempts_def
                      ws_max_reconnect_attempts_def)
    next
      case F: False
      from "3.IH"(3) [OF False F] False F show ?thesis
        by (simp add: subscribe_chunks.simps ws_call_def sleep_ms_def connect_attempts_def
                      ws_max_reconnect_attempts_def)
    qed
  qed
next
  case (4 env st)
  show ?case
  proof (cases "ws st \<and> \<not> exit_ok env (ws_calls st)")
    case True
    then show ?thesis
      by (simp add: reconnect_websocket.simps ws_call_def connect_attempts_def)
  next
    case False
    let ?st1 = "sleep_ms (min (ws_reconnect_delay * 2 ^ ws_reconnect_count st) 60 * 1000)
                      (if ws st then ws_call (WsExit True) st else st)"
    have same: "connect_attempts (ws_log ?st1) = connect_attempts (ws_log st)"
      "ws_reconnect_count ?st1 = ws_reconnect_count st"
      by (auto simp: sleep_ms_def ws_call_def connect_attempts_def)
    show ?thesis
    proof (cases "subscribe_symbols env ?st1 (active_symbols st)")
      case (Inl st')
      from "4.IH" [OF False, of st'] Inl False same show ?thesis
        by (auto simp: reconnect_websocket.simps)
    next
      case (Inr st')
      from "4.IH" [OF False, of st'] Inr False same show ?thesis
        by (auto simp: reconnect_websocket.simps)
    qed
  qed
qed


text \<open>
  Claim C5, as amended.  The ceiling is 10.  A failed subscribe call starts a reconnect
  only while the incremented counter is below the ceiling, so the retries are bounded:
  from a counter \<open>c\<close>, one reconnect (also one liveness check) makes at most
  \<open>max 1 (10 - c)\<close> connection attempts and returns, and the pass over the chunks makes
  at most \<open>9 - c\<close>, that is none once the next failure brings the counter to the ceiling.
\<close>

theorem reconnect_attempts_bounded:
  "ws_max_reconnect_attempts = 10
   \<and> connect_attempts (ws_log (reconnect_websocket env st))
        \<le> connect_attempts (ws_log st) + max 1 (10 - ws_reconnect_count st)
   \<and> connect_attempts (ws_log (health_check env connected st))
        \<le> connect_attempts (ws_log st) + max 1 (10 - ws_reconnect_count st)
   \<and> connect_attempts (ws_log (subscribe_chunks env st cs))
        \<le> connect_attempts (ws_log st) + (9 - ws_reconnect_count st)"
  using connect_bound(2) [of env st cs] connect_bound(3) [of env st]
  by (simp add: health_check_def ws_max_reconnect_attempts_def)

theorem reconnect_attempts_bounded_witness:
  "connect_attempts (ws_log (health_check failing_env False live_tracker)) \<le> 10
   \<and> connect_attempts
         (ws_log (subscribe_chunks failing_env (live_tracker\<lparr>ws_reconnect_count := 9\<rparr>)
                    (symbol_chunks live_tracker))) = 0"
  using reconnect_attempts_bounded
          [of failing_env live_tracker False "symbol_chunks live_tracker"]
        reconnect_attempts_bounded
          [of failing_env "live_tracker\<lparr>ws_reconnect_count := 9\<rparr>" False
              "symbol_chunks live_tracker"]
  by (simp add: live_tracker_def init_tracker_def connect_attempts_def)


lemma distinct_sample_symbols: "distinct sample_symbols"
  by code_simp

lemma length_sample_symbols: "length sample_symbols = 101"
  by (simp add: sample_symbols_def)

lemma remdups_sample_symbols: "remdups sample_symbols = sample_symbols"
  by (rule distinct_remdups_id) (rule distinct_sample_symbols)

lemma chunks_sample_symbols:
  "chunks chunk_size sample_symbols = [take 100 sample_symbols, drop 100 sample_symbols]"
proof -
  have ne: "sample_symbols \<noteq> []" "drop 100 sample_symbols \<noteq> []"
    using length_sample_symbols by auto
  have tk: "take 100 (drop 100 sample_symbols) = drop 100 sample_symbols"
    using length_sample_symbols by simp
  have dr: "drop 100 (drop 100 sample_symbols) = []"
    using length_sample_symbols by simp
  have "chunks 100 sample_symbols = take 100 sample_symbols # chunks 100 (drop 100 sample_symbols)"
    using ne by (subst chunks.simps) simp
  also have "chunks 100 (drop 100 sample_symbols) = drop 100 sample_symbols # chunks 100 []"
    using ne tk dr by (subst chunks.simps) simp
  also have "chunks 100 ([] :: string list) = []"
    by (subst chunks.simps) simp
  finally show ?thesis by (simp add: chunk_size_def)
qed

lemmas run_simps =
  health_check_def reconnect_websocket.simps subscribe_symbols.simps subscribe_chunks.simps
  chunks_sample_symbols remdups_sample_symbols live_tracker_def init_tracker_def
  ws_call_def sleep_ms_def ws_max_reconnect_attempts_def ws_reconnect_delay_def
  failed_subscribes_def connect_attempts_def


text \<open>
  On a stream where every subscribe call fails, a liveness check on a tracker with two
  chunks makes ten connections and eleven failed subscribe calls (the eleventh after the
  counter reached the ceiling), returns with the counter back at zero, and the next
  liveness check connects ten more times: the manager is not terminated.
\<close>

theorem reconnects_after_ceiling_counterexample:
  "failed_subscribes (ws_log (health_check failing_env False live_tracker)) = 11
   \<and> connect_attempts (ws_log (health_check failing_env False live_tracker)) = 10
   \<and> ws_reconnect_count (health_check failing_env False live_tracker) = 0
   \<and> connect_attempts
        (ws_log (health_check failing_env False (health_check failing_env False live_tracker)))
      = 20"
  by (simp add: run_simps failing_env_def)

section \<open>The subscription manager: what a reconnect subscribes\<close>











end
